theory Spec2Isabelle
  imports Main
begin

section \<open>BudgetManagerPro: authentication and access control\<close>

text \<open>
  A shallow embedding of the authentication core of the backend
  (\<^verbatim>\<open>app/core/security.py\<close>, \<^verbatim>\<open>app/core/deps.py\<close>,
  \<^verbatim>\<open>app/services/user_service.py\<close>, \<^verbatim>\<open>app/services/account_service.py\<close>,
  \<^verbatim>\<open>app/api/api_v1/endpoints/auth.py\<close>, \<^verbatim>\<open>app/api/v1/endpoints/accounts.py\<close>).
  Every \<^verbatim>\<open>raise\<close> of the Python is a value \<open>Inl e\<close> of a sum type; a handler that
  touches the database takes it as an argument and returns it with its outcome.
\<close>

subsection \<open>Exceptions\<close>

text \<open>
  \<open>HTTPException status_code detail headers\<close> is FastAPI's exception; the other
  constructors are the exceptions of Python and of the libraries the code calls without
  catching them.
\<close>

datatype error =
    HTTPException int string "(string \<times> string) list"
  | ValueError string
  | UnknownHashError string
  | JWTError string
  | IntegrityError string

abbreviation HTTP_400_BAD_REQUEST :: int where "HTTP_400_BAD_REQUEST \<equiv> 400"
abbreviation HTTP_401_UNAUTHORIZED :: int where "HTTP_401_UNAUTHORIZED \<equiv> 401"
abbreviation HTTP_403_FORBIDDEN :: int where "HTTP_403_FORBIDDEN \<equiv> 403"
abbreviation HTTP_404_NOT_FOUND :: int where "HTTP_404_NOT_FOUND \<equiv> 404"

subsection \<open>Time\<close>

text \<open>
  A naive UTC \<^verbatim>\<open>datetime\<close> is the number of microseconds since the epoch (its
  resolution), a \<^verbatim>\<open>timedelta\<close> a number of microseconds. The hour field of a
  datetime is read off the count; \<^verbatim>\<open>replace(hour=h)\<close> keeps every other field and
  raises \<^verbatim>\<open>ValueError\<close> when \<open>h\<close> is not in \<open>0..23\<close>, as the datetime
  constructor does.
\<close>

type_synonym datetime = int
type_synonym timedelta = int

definition timedelta_seconds :: "int \<Rightarrow> timedelta" where
  "timedelta_seconds s = s * 1000000"

definition timedelta_minutes :: "int \<Rightarrow> timedelta" where
  "timedelta_minutes m = m * 60000000"

definition timedelta_hours :: "int \<Rightarrow> timedelta" where
  "timedelta_hours h = h * 3600000000"

definition timedelta_days :: "int \<Rightarrow> timedelta" where
  "timedelta_days d = d * 86400000000"

definition hour :: "datetime \<Rightarrow> int" where
  "hour t = (t div 3600000000) mod 24"

definition replace_hour :: "datetime \<Rightarrow> int \<Rightarrow> error + datetime" where
  "replace_hour t h =
     (if 0 \<le> h \<and> h < 24 then Inr (t + timedelta_hours (h - hour t))
      else Inl (ValueError ''hour must be in 0..23''))"

subsection \<open>Strings and the libraries\<close>

text \<open>
  A plaintext password is a Python \<^verbatim>\<open>str\<close>: a list of code points, so that
  \<^verbatim>\<open>len\<close> counts what Python counts. Opaque strings (hashes, reset tokens, e-mail
  addresses, messages) are only compared, and are \<^typ>\<open>string\<close>.

  What the code calls but this repository does not define is a field of the record
  \<open>env\<close>: the character classes of Python's Unicode database, \<^verbatim>\<open>passlib\<close>'s
  \<^verbatim>\<open>CryptContext\<close> and \<^verbatim>\<open>python-jose\<close>. A call that may raise returns a sum.
  \<open>'tok\<close> is the type of an encoded token.
\<close>

type_synonym pystr = "nat list"

datatype jwt_value = VStr string | VInt int | VDatetime datetime

type_synonym claims = "(string \<times> jwt_value) list"

record 'tok env =
  str_isupper :: "nat \<Rightarrow> bool"
  str_islower :: "nat \<Rightarrow> bool"
  str_isdigit :: "nat \<Rightarrow> bool"
  pwd_context_hash :: "pystr \<Rightarrow> string"
  pwd_context_verify :: "pystr \<Rightarrow> string \<Rightarrow> error + bool"
  jwt_encode :: "claims \<Rightarrow> string \<Rightarrow> string \<Rightarrow> 'tok"
  jwt_decode :: "'tok \<Rightarrow> string \<Rightarrow> string list \<Rightarrow> datetime \<Rightarrow> error + claims"

subsection \<open>SecurityManager: password strength\<close>

definition special_chars :: pystr where
  "special_chars = map of_char ''!@#$%^&*()_+-=[]{}|;:,.<>?''"

definition validate_password_strength :: "('tok, 'z) env_scheme \<Rightarrow> pystr \<Rightarrow> bool \<times> string" where
  "validate_password_strength E password =
     (if length password < 8 then
        (False, ''Password must be at least 8 characters long'')
      else if \<not> list_ex (str_isupper E) password then
        (False, ''Password must contain at least one uppercase letter'')
      else if \<not> list_ex (str_islower E) password then
        (False, ''Password must contain at least one lowercase letter'')
      else if \<not> list_ex (str_isdigit E) password then
        (False, ''Password must contain at least one digit'')
      else if \<not> list_ex (\<lambda>c. c \<in> set special_chars) password then
        (False, ''Password must contain at least one special character'')
      else (True, ''Password is strong''))"

text \<open>
  The policy as the specification words it: five rules, each with the reason it gives,
  checked in order; the first rule that fails decides.
\<close>

definition policy_rules :: "('tok, 'z) env_scheme \<Rightarrow> ((pystr \<Rightarrow> bool) \<times> string) list" where
  "policy_rules E =
     [(\<lambda>p. 8 \<le> length p, ''Password must be at least 8 characters long''),
      (\<lambda>p. list_ex (str_isupper E) p, ''Password must contain at least one uppercase letter''),
      (\<lambda>p. list_ex (str_islower E) p, ''Password must contain at least one lowercase letter''),
      (\<lambda>p. list_ex (str_isdigit E) p, ''Password must contain at least one digit''),
      (\<lambda>p. list_ex (\<lambda>c. c \<in> set special_chars) p,
         ''Password must contain at least one special character'')]"

fun first_failure :: "(('a \<Rightarrow> bool) \<times> string) list \<Rightarrow> 'a \<Rightarrow> bool \<times> string" where
  "first_failure [] p = (True, ''Password is strong'')"
| "first_failure ((rule, reason) # rules) p =
     (if rule p then first_failure rules p else (False, reason))"

definition spec_validate :: "('tok, 'z) env_scheme \<Rightarrow> pystr \<Rightarrow> bool \<times> string" where
  "spec_validate E p = first_failure (policy_rules E) p"

subsection \<open>SecurityManager: password hashing\<close>


definition get_password_hash :: "('tok, 'z) env_scheme \<Rightarrow> pystr \<Rightarrow> string" where
  "get_password_hash E password = pwd_context_hash E password"

text \<open>
  \<^verbatim>\<open>pwd_context = CryptContext(schemes=["bcrypt"])\<close>: passlib identifies the scheme of
  a hash string by its prefix, and \<^verbatim>\<open>verify\<close> raises \<^verbatim>\<open>UnknownHashError\<close> (a
  \<^verbatim>\<open>ValueError\<close>) for a string that no configured scheme identifies. The bcrypt
  comparison itself is the parameter \<open>bcrypt_verify\<close>.
\<close>

definition bcrypt_idents :: "string list" where
  "bcrypt_idents = [''$2$'', ''$2a$'', ''$2x$'', ''$2y$'', ''$2b$'']"

definition bcrypt_identify :: "string \<Rightarrow> bool" where
  "bcrypt_identify h = list_ex (\<lambda>i. take (length i) h = i) bcrypt_idents"

definition passlib_verify ::
  "(pystr \<Rightarrow> string \<Rightarrow> error + bool) \<Rightarrow> pystr \<Rightarrow> string \<Rightarrow> error + bool" where
  "passlib_verify bcrypt_verify secret h =
     (if bcrypt_identify h then bcrypt_verify secret h
      else Inl (UnknownHashError ''hash could not be identified''))"

subsection \<open>Settings\<close>

record settings =
  SECRET_KEY :: string
  JWT_ALGORITHM :: string
  JWT_EXPIRE_MINUTES :: int
  JWT_REFRESH_EXPIRE_DAYS :: int
  RATE_LIMIT_PER_MINUTE :: int

definition default_settings :: settings where
  "default_settings =
     \<lparr> SECRET_KEY = ''your-super-secret-key-change-this-in-production'',
       JWT_ALGORITHM = ''HS256'',
       JWT_EXPIRE_MINUTES = 30,
       JWT_REFRESH_EXPIRE_DAYS = 7,
       RATE_LIMIT_PER_MINUTE = 60 \<rparr>"

subsection \<open>SecurityManager: tokens\<close>

text \<open>
  The subject of a token is \<^verbatim>\<open>str(user.id)\<close>: the decimal numeral of an integer.
  \<open>access_expire\<close> and \<open>refresh_expire\<close> are the variable \<^verbatim>\<open>expire\<close> of the
  two functions; a \<^verbatim>\<open>timedelta\<close> is false when it is zero.
\<close>

fun str_nat :: "nat \<Rightarrow> string" where
  "str_nat n =
     (if n < 10 then [''0123456789'' ! n]
      else str_nat (n div 10) @ [''0123456789'' ! (n mod 10)])"

declare str_nat.simps [simp del]

definition str_int :: "int \<Rightarrow> string" where
  "str_int i = (if i < 0 then CHR ''-'' # str_nat (nat (- i)) else str_nat (nat i))"

definition access_expire :: "settings \<Rightarrow> datetime \<Rightarrow> timedelta option \<Rightarrow> datetime" where
  "access_expire S now expires_delta =
     (case expires_delta of
        Some d \<Rightarrow> if d \<noteq> 0 then now + d else now + timedelta_minutes (JWT_EXPIRE_MINUTES S)
      | None \<Rightarrow> now + timedelta_minutes (JWT_EXPIRE_MINUTES S))"

definition create_access_token ::
  "('tok, 'z) env_scheme \<Rightarrow> settings \<Rightarrow> datetime \<Rightarrow> int \<Rightarrow> timedelta option \<Rightarrow> 'tok" where
  "create_access_token E S now subject expires_delta =
     (let expire = access_expire S now expires_delta;
          to_encode =
            [(''exp'', VDatetime expire), (''sub'', VStr (str_int subject)),
             (''type'', VStr ''access'')]
      in jwt_encode E to_encode (SECRET_KEY S) (JWT_ALGORITHM S))"

definition refresh_expire :: "settings \<Rightarrow> datetime \<Rightarrow> datetime" where
  "refresh_expire S now = now + timedelta_days (JWT_REFRESH_EXPIRE_DAYS S)"

definition create_refresh_token ::
  "('tok, 'z) env_scheme \<Rightarrow> settings \<Rightarrow> datetime \<Rightarrow> int \<Rightarrow> 'tok" where
  "create_refresh_token E S now subject =
     (let expire = refresh_expire S now;
          to_encode =
            [(''exp'', VDatetime expire), (''sub'', VStr (str_int subject)),
             (''type'', VStr ''refresh'')]
      in jwt_encode E to_encode (SECRET_KEY S) (JWT_ALGORITHM S))"

text \<open>
  \<^verbatim>\<open>verify_token\<close> catches \<^verbatim>\<open>JWTError\<close> only (expiry and claim errors are its
  subclasses); \<^verbatim>\<open>payload.get\<close> is the lookup in the decoded claims.
\<close>

definition verify_token ::
  "('tok, 'z) env_scheme \<Rightarrow> settings \<Rightarrow> datetime \<Rightarrow> 'tok \<Rightarrow> string \<Rightarrow> error + jwt_value option" where
  "verify_token E S now token token_type =
     (case jwt_decode E token (SECRET_KEY S) [JWT_ALGORITHM S] now of
        Inl (JWTError m) \<Rightarrow> Inr None
      | Inl e \<Rightarrow> Inl e
      | Inr payload \<Rightarrow>
          if map_of payload ''type'' \<noteq> Some (VStr token_type) then Inr None
          else (case map_of payload ''sub'' of
                  None \<Rightarrow> Inr None
                | Some subject \<Rightarrow> Inr (Some subject)))"

definition verify_access_token ::
  "('tok, 'z) env_scheme \<Rightarrow> settings \<Rightarrow> datetime \<Rightarrow> 'tok \<Rightarrow> error + jwt_value" where
  "verify_access_token E S now token =
     (case verify_token E S now token ''access'' of
        Inl e \<Rightarrow> Inl e
      | Inr None \<Rightarrow>
          Inl (HTTPException HTTP_401_UNAUTHORIZED ''Could not validate credentials''
                 [(''WWW-Authenticate'', ''Bearer'')])
      | Inr (Some user_id) \<Rightarrow> Inr user_id)"

definition verify_refresh_token ::
  "('tok, 'z) env_scheme \<Rightarrow> settings \<Rightarrow> datetime \<Rightarrow> 'tok \<Rightarrow> error + jwt_value" where
  "verify_refresh_token E S now token =
     (case verify_token E S now token ''refresh'' of
        Inl e \<Rightarrow> Inl e
      | Inr None \<Rightarrow>
          Inl (HTTPException HTTP_401_UNAUTHORIZED ''Could not validate refresh token''
                 [(''WWW-Authenticate'', ''Bearer'')])
      | Inr (Some user_id) \<Rightarrow> Inr user_id)"

text \<open>
  What the code relies on in python-jose: \<^verbatim>\<open>encode\<close> writes a datetime claim as whole
  seconds; \<^verbatim>\<open>decode\<close> of a token encoded under the same key and algorithm returns
  the claims as written, unless \<^verbatim>\<open>exp\<close> is before the current second, when it raises
  \<^verbatim>\<open>ExpiredSignatureError\<close>, a \<^verbatim>\<open>JWTError\<close>.
\<close>

definition wire_claims :: "claims \<Rightarrow> claims" where
  "wire_claims c =
     map (\<lambda>(k, v). (k, case v of VDatetime t \<Rightarrow> VInt (t div 1000000) | _ \<Rightarrow> v)) c"

definition claims_expired :: "claims \<Rightarrow> datetime \<Rightarrow> bool" where
  "claims_expired c now =
     (case map_of (wire_claims c) ''exp'' of
        Some (VInt e) \<Rightarrow> e < now div 1000000
      | _ \<Rightarrow> False)"

definition jose_contract :: "('tok, 'z) env_scheme \<Rightarrow> bool" where
  "jose_contract E =
     (\<forall>c key alg now.
        jwt_decode E (jwt_encode E c key alg) key [alg] now =
          (if claims_expired c now then Inl (JWTError ''Signature has expired.'')
           else Inr (wire_claims c)))"

subsection \<open>RateLimiter\<close>

text \<open>
  \<^verbatim>\<open>self._requests\<close> is a dictionary from identifiers to lists of datetimes;
  \<^verbatim>\<open>is_allowed\<close> returns its answer and the dictionary as it leaves it.
\<close>

type_synonym requests = "string \<rightharpoonup> datetime list"

definition is_allowed ::
  "requests \<Rightarrow> datetime \<Rightarrow> string \<Rightarrow> int \<Rightarrow> int \<Rightarrow> bool \<times> requests" where
  "is_allowed reqs now identifier max_requests window_seconds =
     (let window_start = now - timedelta_seconds window_seconds;
          reqs1 =
            (case reqs identifier of
               Some req_times \<Rightarrow>
                 reqs(identifier \<mapsto> filter (\<lambda>req_time. req_time > window_start) req_times)
             | None \<Rightarrow> reqs(identifier \<mapsto> []))
      in if int (length (the (reqs1 identifier))) \<ge> max_requests then (False, reqs1)
         else (True, reqs1(identifier \<mapsto> the (reqs1 identifier) @ [now])))"

text \<open>The timestamps the dictionary holds for an identifier (none without an entry).\<close>

definition recorded :: "requests \<Rightarrow> string \<Rightarrow> datetime list" where
  "recorded reqs identifier = (case reqs identifier of Some ts \<Rightarrow> ts | None \<Rightarrow> [])"

text \<open>A sequence of calls for one identifier, at the given clock readings.\<close>

fun is_allowed_calls ::
  "requests \<Rightarrow> string \<Rightarrow> int \<Rightarrow> int \<Rightarrow> datetime list \<Rightarrow> bool list \<times> requests" where
  "is_allowed_calls reqs identifier max_requests window_seconds [] = ([], reqs)"
| "is_allowed_calls reqs identifier max_requests window_seconds (now # nows) =
     (let (ok, reqs1) = is_allowed reqs now identifier max_requests window_seconds;
          (oks, reqs2) = is_allowed_calls reqs1 identifier max_requests window_seconds nows
      in (ok # oks, reqs2))"


subsection \<open>The database\<close>

text \<open>
  The columns of the tables \<^verbatim>\<open>users\<close> and \<^verbatim>\<open>accounts\<close>, prefixed \<open>u_\<close> and
  \<open>a_\<close> (both tables have \<^verbatim>\<open>id\<close>, \<^verbatim>\<open>is_active\<close> and the timestamps). A table
  is the list of its rows; \<^verbatim>\<open>query(...).filter(...).first()\<close> is \<^const>\<open>find\<close>.
  The current user of a request (\<^verbatim>\<open>UserInDB\<close>, a copy of columns of the row) is a
  \<open>user\<close> as well.
\<close>

record user =
  u_id :: int
  u_email :: string
  u_password_hash :: string
  u_first_name :: string
  u_last_name :: string
  u_is_active :: bool
  u_is_superuser :: bool
  u_created_at :: datetime
  u_updated_at :: datetime
  u_last_login :: "datetime option"
  u_password_reset_token :: "string option"
  u_password_reset_expires :: "datetime option"
  u_preferences :: "string option"
  u_timezone :: string

datatype AccountType = CHECKING | SAVINGS | CREDIT_CARD | MORTGAGE | LINE_OF_CREDIT

record account =
  a_id :: int
  a_user_id :: int
  a_name :: string
  a_account_type :: AccountType
  a_bank_name :: "string option"
  a_account_number :: "string option"
  a_description :: "string option"
  a_is_active :: bool
  a_created_at :: datetime
  a_updated_at :: datetime

record database =
  users :: "user list"
  accounts :: "account list"

text \<open>
  \<^verbatim>\<open>db.commit()\<close> after the attributes of a loaded row were assigned: the row with
  that primary key is replaced. \<^verbatim>\<open>db.delete(row)\<close> removes it.
\<close>

definition commit_user :: "database \<Rightarrow> user \<Rightarrow> database" where
  "commit_user db row = db\<lparr>users := map (\<lambda>u. if u_id u = u_id row then row else u) (users db)\<rparr>"

definition commit_account :: "database \<Rightarrow> account \<Rightarrow> database" where
  "commit_account db row =
     db\<lparr>accounts := map (\<lambda>a. if a_id a = a_id row then row else a) (accounts db)\<rparr>"

definition delete_row_account :: "database \<Rightarrow> account \<Rightarrow> database" where
  "delete_row_account db row = db\<lparr>accounts := filter (\<lambda>a. a_id a \<noteq> a_id row) (accounts db)\<rparr>"

subsection \<open>UserService\<close>

definition get_user_by_id :: "database \<Rightarrow> int \<Rightarrow> user option" where
  "get_user_by_id db user_id = find (\<lambda>u. u_id u = user_id) (users db)"

definition get_user_by_email :: "database \<Rightarrow> string \<Rightarrow> user option" where
  "get_user_by_email db email = find (\<lambda>u. u_email u = email) (users db)"

text \<open>
  \<^verbatim>\<open>set_password_reset_token\<close> reads the clock three times: the datetime whose hour
  is replaced (\<open>now1\<close>), the datetime whose hour is incremented (\<open>now2\<close>), and
  \<^verbatim>\<open>updated_at\<close> (\<open>now3\<close>). The exception of \<^verbatim>\<open>replace\<close> leaves before the
  commit.
\<close>

definition UserService_set_password_reset_token ::
  "datetime \<Rightarrow> datetime \<Rightarrow> datetime \<Rightarrow> database \<Rightarrow> int \<Rightarrow> string \<Rightarrow> error + database \<times> user" where
  "UserService_set_password_reset_token now1 now2 now3 db user_id reset_token =
     (case get_user_by_id db user_id of
        None \<Rightarrow> Inl (HTTPException HTTP_404_NOT_FOUND ''User not found'' [])
      | Some db_user \<Rightarrow>
          (case replace_hour now1 (hour now2 + 1) of
             Inl e \<Rightarrow> Inl e
           | Inr expires \<Rightarrow>
               let db_user1 = db_user
                     \<lparr> u_updated_at := now3,
                       u_password_reset_token := Some reset_token,
                       u_password_reset_expires := Some expires \<rparr>
               in Inr (commit_user db db_user1, db_user1)))"

definition UserService_reset_password ::
  "('tok, 'z) env_scheme \<Rightarrow> datetime \<Rightarrow> database \<Rightarrow> int \<Rightarrow> pystr \<Rightarrow> error + database \<times> user" where
  "UserService_reset_password E now db user_id new_password =
     (case get_user_by_id db user_id of
        None \<Rightarrow> Inl (HTTPException HTTP_404_NOT_FOUND ''User not found'' [])
      | Some db_user \<Rightarrow>
          let password_hash = get_password_hash E new_password;
              db_user1 = db_user
                \<lparr> u_password_hash := password_hash,
                  u_updated_at := now,
                  u_password_reset_token := None,
                  u_password_reset_expires := None \<rparr>
          in Inr (commit_user db db_user1, db_user1))"


subsection \<open>Authentication endpoints\<close>

text \<open>
  A handler returns its outcome and the database as the request leaves it: an exception
  raised before the commit leaves the database as it was.
\<close>

record UserLogin =
  email :: string
  password :: pystr

record 'tok Token =
  access_token :: 'tok
  refresh_token :: 'tok
  token_type :: string
  expires_in :: int


record PasswordReset =
  token :: string
  new_password :: pystr

definition reset_password ::
  "('tok, 'z) env_scheme \<Rightarrow> datetime \<Rightarrow> database \<Rightarrow> PasswordReset
     \<Rightarrow> (error + string) \<times> database" where
  "reset_password E now db reset_data =
     (case find (\<lambda>u. u_password_reset_token u = Some (token reset_data)) (users db) of
        None \<Rightarrow> (Inl (HTTPException HTTP_400_BAD_REQUEST ''Invalid reset token'' []), db)
      | Some user \<Rightarrow>
          (case validate_password_strength E (new_password reset_data) of
             (is_valid, message) \<Rightarrow>
               if \<not> is_valid then (Inl (HTTPException HTTP_400_BAD_REQUEST message []), db)
               else
                 (case UserService_reset_password E now db (u_id user) (new_password reset_data) of
                    Inl e \<Rightarrow> (Inl e, db)
                  | Inr (db1, _) \<Rightarrow> (Inr ''Password reset successfully'', db1))))"

text \<open>
  \<^verbatim>\<open>request_password_reset\<close>: the generated token
  (\<^verbatim>\<open>secrets.token_urlsafe(32)\<close>) is the argument \<open>reset_token\<close>; the response
  carries the message and, for a known address, the token.
\<close>

definition request_password_reset ::
  "datetime \<Rightarrow> datetime \<Rightarrow> datetime \<Rightarrow> string \<Rightarrow> database \<Rightarrow> string
     \<Rightarrow> (error + string \<times> string option) \<times> database" where
  "request_password_reset now1 now2 now3 reset_token db email_address =
     (case find (\<lambda>u. u_email u = email_address) (users db) of
        None \<Rightarrow> (Inr (''If the email exists, a reset link has been sent'', None), db)
      | Some user \<Rightarrow>
          (case UserService_set_password_reset_token now1 now2 now3 db (u_id user) reset_token of
             Inl e \<Rightarrow> (Inl e, db)
           | Inr (db1, _) \<Rightarrow> (Inr (''Password reset token generated'', Some reset_token), db1)))"

subsection \<open>AccountService\<close>

definition AccountService_get_account :: "database \<Rightarrow> int \<Rightarrow> int \<Rightarrow> account option" where
  "AccountService_get_account db account_id user_id =
     find (\<lambda>a. a_id a = account_id \<and> a_user_id a = user_id) (accounts db)"

text \<open>
  \<^verbatim>\<open>AccountUpdate\<close>: every field is optional, and \<^verbatim>\<open>dict(exclude_unset=True)\<close>
  keeps the fields the request set, also those it set to \<^verbatim>\<open>None\<close>. Reading a field
  that was not set gives \<^verbatim>\<open>None\<close>. Assigning \<^verbatim>\<open>None\<close> to a column that is not
  nullable fails at the commit.
\<close>

datatype 'a field = Unset | Provided 'a

record AccountUpdate =
  upd_name :: "string option field"
  upd_account_type :: "AccountType option field"
  upd_bank_name :: "string option field"
  upd_account_number :: "string option field"
  upd_description :: "string option field"
  upd_is_active :: "bool option field"

definition attr :: "'a option field \<Rightarrow> 'a option" where
  "attr f = (case f of Unset \<Rightarrow> None | Provided v \<Rightarrow> v)"

definition set_required :: "'a option field \<Rightarrow> 'a \<Rightarrow> error + 'a" where
  "set_required f old =
     (case f of
        Unset \<Rightarrow> Inr old
      | Provided None \<Rightarrow> Inl (IntegrityError ''NOT NULL constraint failed'')
      | Provided (Some v) \<Rightarrow> Inr v)"

definition set_nullable :: "'a option field \<Rightarrow> 'a option \<Rightarrow> 'a option" where
  "set_nullable f old = (case f of Unset \<Rightarrow> old | Provided v \<Rightarrow> v)"

definition AccountService_update_account ::
  "datetime \<Rightarrow> database \<Rightarrow> int \<Rightarrow> AccountUpdate \<Rightarrow> int \<Rightarrow> error + database \<times> account option" where
  "AccountService_update_account now db account_id account_data user_id =
     (case AccountService_get_account db account_id user_id of
        None \<Rightarrow> Inr (db, None)
      | Some acc \<Rightarrow>
          let new_name = attr (upd_name account_data);
              renamed = (new_name \<noteq> None \<and> new_name \<noteq> Some [] \<and> new_name \<noteq> Some (a_name acc));
              existing_account =
                find (\<lambda>a. a_user_id a = user_id \<and> Some (a_name a) = new_name \<and> a_is_active a
                          \<and> a_id a \<noteq> account_id) (accounts db)
          in if renamed \<and> existing_account \<noteq> None then
               Inl (HTTPException HTTP_400_BAD_REQUEST
                      (''Account with name '' @ [CHR 0x27] @ the new_name @ [CHR 0x27]
                         @ '' already exists'') [])
             else
               (case set_required (upd_name account_data) (a_name acc) of
                  Inl e \<Rightarrow> Inl e
                | Inr name1 \<Rightarrow>
               (case set_required (upd_account_type account_data) (a_account_type acc) of
                  Inl e \<Rightarrow> Inl e
                | Inr type1 \<Rightarrow>
               (case set_required (upd_is_active account_data) (a_is_active acc) of
                  Inl e \<Rightarrow> Inl e
                | Inr active1 \<Rightarrow>
                    let acc1 = acc
                          \<lparr> a_name := name1,
                            a_account_type := type1,
                            a_bank_name := set_nullable (upd_bank_name account_data) (a_bank_name acc),
                            a_account_number :=
                              set_nullable (upd_account_number account_data) (a_account_number acc),
                            a_description :=
                              set_nullable (upd_description account_data) (a_description acc),
                            a_is_active := active1,
                            a_updated_at := now \<rparr>
                    in Inr (commit_account db acc1, Some acc1)))))"

definition AccountService_delete_account ::
  "datetime \<Rightarrow> database \<Rightarrow> int \<Rightarrow> int \<Rightarrow> database \<times> bool" where
  "AccountService_delete_account now db account_id user_id =
     (case AccountService_get_account db account_id user_id of
        None \<Rightarrow> (db, False)
      | Some acc \<Rightarrow> (commit_account db (acc\<lparr> a_is_active := False, a_updated_at := now \<rparr>), True))"

definition AccountService_hard_delete_account :: "database \<Rightarrow> int \<Rightarrow> int \<Rightarrow> database \<times> bool" where
  "AccountService_hard_delete_account db account_id user_id =
     (case AccountService_get_account db account_id user_id of
        None \<Rightarrow> (db, False)
      | Some acc \<Rightarrow> (delete_row_account db acc, True))"

subsection \<open>Account endpoints\<close>

text \<open>
  The handlers of \<^verbatim>\<open>app/api/v1/endpoints/accounts.py\<close>, the router the application
  mounts. \<open>current_user\<close> is what the dependency \<^verbatim>\<open>get_current_user\<close> resolved.
\<close>

definition account_not_found :: error where
  "account_not_found = HTTPException HTTP_404_NOT_FOUND ''Account not found'' []"

definition get_account :: "database \<Rightarrow> int \<Rightarrow> user \<Rightarrow> error + account" where
  "get_account db account_id current_user =
     (case AccountService_get_account db account_id (u_id current_user) of
        None \<Rightarrow> Inl account_not_found
      | Some acc \<Rightarrow> Inr acc)"

definition update_account ::
  "datetime \<Rightarrow> database \<Rightarrow> int \<Rightarrow> AccountUpdate \<Rightarrow> user \<Rightarrow> (error + account) \<times> database" where
  "update_account now db account_id account_data current_user =
     (case AccountService_update_account now db account_id account_data (u_id current_user) of
        Inl e \<Rightarrow> (Inl e, db)
      | Inr (db1, None) \<Rightarrow> (Inl account_not_found, db1)
      | Inr (db1, Some acc) \<Rightarrow> (Inr acc, db1))"

definition delete_account ::
  "datetime \<Rightarrow> database \<Rightarrow> int \<Rightarrow> bool \<Rightarrow> user \<Rightarrow> (error + string \<times> bool) \<times> database" where
  "delete_account now db account_id hard_delete current_user =
     (let (db1, success, message) =
            (if hard_delete then
               (case AccountService_hard_delete_account db account_id (u_id current_user) of
                  (d, ok) \<Rightarrow> (d, ok, ''Account permanently deleted''))
             else
               (case AccountService_delete_account now db account_id (u_id current_user) of
                  (d, ok) \<Rightarrow> (d, ok, ''Account deactivated successfully'')))
      in if \<not> success then (Inl account_not_found, db1) else (Inr (message, True), db1))"


subsection \<open>Dependencies\<close>

text \<open>
  \<^verbatim>\<open>check_account_access(account_id)\<close> of \<^verbatim>\<open>app/core/deps.py\<close>: the dependency it
  returns, applied to the current user and the database.
\<close>

definition check_account_access :: "database \<Rightarrow> int \<Rightarrow> user \<Rightarrow> error + user" where
  "check_account_access db account_id current_user =
     (let acc = find (\<lambda>a. a_id a = account_id \<and> a_user_id a = u_id current_user) (accounts db)
      in if acc = None \<and> \<not> u_is_superuser current_user then
           Inl (HTTPException HTTP_403_FORBIDDEN ''Access denied to this account'' [])
         else Inr current_user)"

subsection \<open>Instances for evaluation\<close>

text \<open>
  An environment to evaluate the definitions in: the character classes on ASCII, a
  transparent stand-in for bcrypt under passlib's identification of the hash, and tokens
  as the claims written with the key and the algorithm that signed them.
\<close>

definition toy_hash :: "pystr \<Rightarrow> string" where
  "toy_hash p = ''$2b$'' @ map char_of p"

definition model_env :: "(claims \<times> string \<times> string) env" where
  "model_env =
     \<lparr> str_isupper = (\<lambda>c. 65 \<le> c \<and> c \<le> 90),
       str_islower = (\<lambda>c. 97 \<le> c \<and> c \<le> 122),
       str_isdigit = (\<lambda>c. 48 \<le> c \<and> c \<le> 57),
       pwd_context_hash = toy_hash,
       pwd_context_verify = passlib_verify (\<lambda>p h. Inr (h = toy_hash p)),
       jwt_encode = (\<lambda>c key alg. (wire_claims c, key, alg)),
       jwt_decode =
         (\<lambda>tok key algs now.
            case tok of (c, k, a) \<Rightarrow>
              if k \<noteq> key \<or> a \<notin> set algs then Inl (JWTError ''Signature verification failed.'')
              else if (case map_of c ''exp'' of Some (VInt e) \<Rightarrow> e < now div 1000000 | _ \<Rightarrow> False)
                then Inl (JWTError ''Signature has expired.'')
              else Inr c) \<rparr>"

definition pystr_of :: "string \<Rightarrow> pystr" where
  "pystr_of s = map of_char s"

definition example_user :: "int \<Rightarrow> string \<Rightarrow> bool \<Rightarrow> user" where
  "example_user i mail super =
     \<lparr> u_id = i, u_email = mail, u_password_hash = toy_hash (pystr_of ''Strong1!''),
       u_first_name = ''A'', u_last_name = ''B'', u_is_active = True, u_is_superuser = super,
       u_created_at = 0, u_updated_at = 0, u_last_login = None,
       u_password_reset_token = None, u_password_reset_expires = None,
       u_preferences = None, u_timezone = ''UTC'' \<rparr>"

definition example_account :: "int \<Rightarrow> int \<Rightarrow> account" where
  "example_account i owner =
     \<lparr> a_id = i, a_user_id = owner, a_name = ''Main'', a_account_type = CHECKING,
       a_bank_name = None, a_account_number = None, a_description = None,
       a_is_active = True, a_created_at = 0, a_updated_at = 0 \<rparr>"

text \<open>
  A database for evaluation: user 7 holds the reset token \<open>''tok''\<close>, which expired at
  time 1000, and owns account 42; user 9 is a superuser.
\<close>

definition example_db :: database where
  "example_db =
     \<lparr> users =
         [(example_user 7 ''a@x.com'' False)
            \<lparr> u_password_reset_token := Some ''tok'', u_password_reset_expires := Some 1000 \<rparr>,
          example_user 9 ''b@x.com'' True],
       accounts = [example_account 42 7] \<rparr>"

section \<open>Theorems\<close>

text \<open>
  C6: for every plaintext password, \<open>validate_password_strength\<close> is the first-failure
  evaluation of the five rules in the order length, uppercase, lowercase, digit, special
  character; it is valid exactly when all five rules pass, and otherwise its reason is the
  one of the first rule violated.
\<close>

theorem validate_password_strength_first_failure:
  "validate_password_strength E p = spec_validate E p
   \<and> (fst (validate_password_strength E p) \<longleftrightarrow>
        8 \<le> length p \<and> list_ex (str_isupper E) p \<and> list_ex (str_islower E) p
        \<and> list_ex (str_isdigit E) p \<and> list_ex (\<lambda>c. c \<in> set special_chars) p)
   \<and> (fst (validate_password_strength E p) \<longleftrightarrow> list_all (\<lambda>r. fst r p) (policy_rules E))
   \<and> (validate_password_strength E p = (False, ''Password must be at least 8 characters long'')
        \<longleftrightarrow> length p < 8)
   \<and> (validate_password_strength E p = (False, ''Password must contain at least one uppercase letter'')
        \<longleftrightarrow> 8 \<le> length p \<and> \<not> list_ex (str_isupper E) p)
   \<and> (validate_password_strength E p = (False, ''Password must contain at least one lowercase letter'')
        \<longleftrightarrow> 8 \<le> length p \<and> list_ex (str_isupper E) p \<and> \<not> list_ex (str_islower E) p)
   \<and> (validate_password_strength E p = (False, ''Password must contain at least one digit'')
        \<longleftrightarrow> 8 \<le> length p \<and> list_ex (str_isupper E) p \<and> list_ex (str_islower E) p
            \<and> \<not> list_ex (str_isdigit E) p)
   \<and> (validate_password_strength E p = (False, ''Password must contain at least one special character'')
        \<longleftrightarrow> 8 \<le> length p \<and> list_ex (str_isupper E) p \<and> list_ex (str_islower E) p
            \<and> list_ex (str_isdigit E) p \<and> \<not> list_ex (\<lambda>c. c \<in> set special_chars) p)"
  by (simp add: validate_password_strength_def spec_validate_def policy_rules_def)

text \<open>
  The scenario of the specification: \<open>Weak1!\<close> has six characters and fails the
  length rule; \<open>Strong1!\<close> passes all five rules.
\<close>

theorem validate_password_strength_first_failure_witness:
  "validate_password_strength model_env (pystr_of ''Weak1!'')
     = (False, ''Password must be at least 8 characters long'')
   \<and> validate_password_strength model_env (pystr_of ''Strong1!'') = (True, ''Password is strong'')
   \<and> spec_validate model_env (pystr_of ''strong1!'')
     = (False, ''Password must contain at least one uppercase letter'')"
proof -
  have a: "length (pystr_of ''Weak1!'') < 8" by (simp add: pystr_of_def)
  have b: "fst (validate_password_strength model_env (pystr_of ''Strong1!''))"
    by (simp add: validate_password_strength_def model_env_def pystr_of_def special_chars_def)
  have c: "8 \<le> length (pystr_of ''strong1!'')
           \<and> \<not> list_ex (str_isupper model_env) (pystr_of ''strong1!'')"
    by (simp add: model_env_def pystr_of_def)
  have d: "snd (validate_password_strength model_env (pystr_of ''Strong1!'')) = ''Password is strong''"
    by (simp add: validate_password_strength_def model_env_def pystr_of_def special_chars_def)
  have w: "validate_password_strength model_env (pystr_of ''Weak1!'')
     = (False, ''Password must be at least 8 characters long'')"
    using a validate_password_strength_first_failure [of model_env "pystr_of ''Weak1!''"]
    by blast
  have u: "spec_validate model_env (pystr_of ''strong1!'')
     = (False, ''Password must contain at least one uppercase letter'')"
    using c validate_password_strength_first_failure [of model_env "pystr_of ''strong1!''"]
    by metis
  have s: "validate_password_strength model_env (pystr_of ''Strong1!'') = (True, ''Password is strong'')"
    using b d by (simp add: prod_eq_iff)
  show ?thesis using w u s by simp
qed

subsection \<open>Password reset expiry\<close>

lemma hour_range: "0 \<le> hour t \<and> hour t < 24"
  by (simp add: hour_def)

text \<open>
  C9: the expiry of a reset token is computed by replacing the hour field with the
  current hour plus one. At every call time whose hour is 23,
  \<open>set_password_reset_token\<close> raises \<^verbatim>\<open>ValueError\<close> (the hour 24 is no hour) and
  sets no expiry; at every other call time the expiry is the call time plus one hour. So
  the expiry is not \<open>now + 1 hour\<close> at every call time.
\<close>

theorem set_password_reset_token_hour_23:
  assumes "get_user_by_id db user_id = Some u"
  shows "(hour now2 = 23 \<longrightarrow>
            UserService_set_password_reset_token now1 now2 now3 db user_id reset_token
              = Inl (ValueError ''hour must be in 0..23''))
       \<and> (hour now \<noteq> 23 \<longrightarrow>
            (\<exists>db1 u1. UserService_set_password_reset_token now now now3 db user_id reset_token
                         = Inr (db1, u1)
                     \<and> u_password_reset_expires u1 = Some (now + timedelta_hours 1)))"
  using assms hour_range[of now]
  by (auto simp: UserService_set_password_reset_token_def replace_hour_def Let_def)

theorem set_password_reset_token_hour_23_witness:
  "get_user_by_id \<lparr>users = [example_user 7 ''a@x.com'' False], accounts = []\<rparr> 7
      = Some (example_user 7 ''a@x.com'' False)
   \<and> hour 84600000000 = 23
   \<and> UserService_set_password_reset_token 84600000000 84600000000 84600000000
        \<lparr>users = [example_user 7 ''a@x.com'' False], accounts = []\<rparr> 7 ''tok''
      = Inl (ValueError ''hour must be in 0..23'')"
proof -
  have g: "get_user_by_id \<lparr>users = [example_user 7 ''a@x.com'' False], accounts = []\<rparr> 7
      = Some (example_user 7 ''a@x.com'' False)"
    by (simp add: get_user_by_id_def example_user_def)
  have h: "hour 84600000000 = 23" by (simp add: hour_def)
  show ?thesis
    using g h set_password_reset_token_hour_23 [OF g, of 84600000000 84600000000 84600000000 "''tok''"]
    by simp
qed

subsection \<open>Password reset\<close>


lemma find_member: "find P xs = Some x \<Longrightarrow> x \<in> set xs \<and> P x"
  by (induction xs) (auto split: if_splits)

lemma find_by_key_distinct:
  "distinct (map f xs) \<Longrightarrow> x \<in> set xs \<Longrightarrow> find (\<lambda>v. f v = f x) xs = Some x"
  by (induction xs) auto

lemma find_filter_hd: "find P xs = Some x \<Longrightarrow> \<exists>ys. filter P xs = x # ys"
  by (induction xs) (auto split: if_splits)

lemma find_unique_holder:
  assumes "find P xs = Some x" "length (filter P xs) \<le> 1" "v \<in> set xs" "P v"
  shows "v = x"
proof -
  obtain ys where ys: "filter P xs = x # ys" using find_filter_hd[OF assms(1)] by blast
  with assms(2) have "ys = []" by simp
  with ys have "set (filter P xs) = {x}" by simp
  moreover have "v \<in> set (filter P xs)" using assms(3,4) by simp
  ultimately show ?thesis by simp
qed






lemma reset_password_success:
  assumes "reset_password E now db \<lparr>token = t, new_password = pw\<rparr> = (Inr msg, db1)"
  shows "\<exists>u u0. find (\<lambda>v. u_password_reset_token v = Some t) (users db) = Some u
           \<and> get_user_by_id db (u_id u) = Some u0
           \<and> db1 = commit_user db (u0\<lparr> u_password_hash := get_password_hash E pw,
                  u_updated_at := now, u_password_reset_token := None,
                  u_password_reset_expires := None \<rparr>)"
  using assms
  by (cases "validate_password_strength E pw")
     (auto simp: reset_password_def UserService_reset_password_def Let_def
           split: option.splits if_splits)

text \<open>
  C3: reset tokens are single-use. In a database whose primary keys are distinct and
  where at most one user holds the presented token, a successful reset replaces the
  password hash of the user found by the token and sets that user's
  \<open>password_reset_token\<close> and \<open>password_reset_expires\<close> to \<open>None\<close> in
  the one row it commits; every later attempt with the same token, at any time and with
  any new password, is the error 400 \<open>Invalid reset token\<close> and leaves the
  database as it was.
\<close>

theorem reset_token_single_use:
  assumes "length (filter (\<lambda>v. u_password_reset_token v = Some t) (users db)) \<le> 1"
      and "distinct (map u_id (users db))"
      and "reset_password E now db \<lparr>token = t, new_password = pw\<rparr> = (Inr msg, db1)"
  shows "(\<exists>u. find (\<lambda>v. u_password_reset_token v = Some t) (users db) = Some u
            \<and> users db1 =
                map (\<lambda>v. if u_id v = u_id u
                          then u\<lparr> u_password_hash := get_password_hash E pw,
                                  u_updated_at := now,
                                  u_password_reset_token := None,
                                  u_password_reset_expires := None \<rparr>
                          else v) (users db)
            \<and> accounts db1 = accounts db)
       \<and> reset_password E now2 db1 \<lparr>token = t, new_password = pw2\<rparr>
           = (Inl (HTTPException HTTP_400_BAD_REQUEST ''Invalid reset token'' []), db1)"
proof -
  let ?P = "\<lambda>v. u_password_reset_token v = Some t"
  obtain u u0 where u: "find ?P (users db) = Some u"
    and u0: "get_user_by_id db (u_id u) = Some u0"
    and db1: "db1 = commit_user db (u0\<lparr> u_password_hash := get_password_hash E pw,
                  u_updated_at := now, u_password_reset_token := None,
                  u_password_reset_expires := None \<rparr>)"
    using reset_password_success[OF assms(3)] by blast
  have mem: "u \<in> set (users db)" using find_member[OF u] by simp
  have "get_user_by_id db (u_id u) = Some u"
    unfolding get_user_by_id_def using find_by_key_distinct[OF assms(2) mem] .
  with u0 have eq: "u0 = u" by simp
  let ?u1 = "u\<lparr> u_password_hash := get_password_hash E pw, u_updated_at := now,
                u_password_reset_token := None, u_password_reset_expires := None \<rparr>"
  have us: "users db1 = map (\<lambda>v. if u_id v = u_id u then ?u1 else v) (users db)"
    using db1 eq by (simp add: commit_user_def)
  have acc: "accounts db1 = accounts db" using db1 by (simp add: commit_user_def)
  have "\<not> ?P w" if "w \<in> set (users db1)" for w
  proof
    assume pw: "?P w"
    from that us obtain v where v: "v \<in> set (users db)"
      and w: "w = (if u_id v = u_id u then ?u1 else v)" by auto
    show False
    proof (cases "u_id v = u_id u")
      case True
      with w pw show False by simp
    next
      case False
      with w pw have "?P v" by simp
      then have "v = u" using find_unique_holder[OF u assms(1) v] by simp
      with False show False by simp
    qed
  qed
  then have "find ?P (users db1) = None" by (simp add: find_None_iff)
  then have "reset_password E now2 db1 \<lparr>token = t, new_password = pw2\<rparr>
           = (Inl (HTTPException HTTP_400_BAD_REQUEST ''Invalid reset token'' []), db1)"
    by (simp add: reset_password_def)
  with u us acc show ?thesis by blast
qed


lemmas eval_defs =
  reset_password_def UserService_reset_password_def get_user_by_id_def commit_user_def
  get_password_hash_def validate_password_strength_def model_env_def pystr_of_def
  special_chars_def example_db_def example_user_def example_account_def toy_hash_def Let_def

theorem reset_token_single_use_witness:
  "length (filter (\<lambda>v. u_password_reset_token v = Some ''tok'') (users example_db)) \<le> 1
   \<and> distinct (map u_id (users example_db))
   \<and> fst (reset_password model_env 2000 example_db
            \<lparr>token = ''tok'', new_password = pystr_of ''Strong1!''\<rparr>)
        = Inr ''Password reset successfully''
   \<and> reset_password model_env 3000
        (snd (reset_password model_env 2000 example_db
            \<lparr>token = ''tok'', new_password = pystr_of ''Strong1!''\<rparr>))
        \<lparr>token = ''tok'', new_password = pystr_of ''Another2?''\<rparr>
      = (Inl (HTTPException HTTP_400_BAD_REQUEST ''Invalid reset token'' []),
         snd (reset_password model_env 2000 example_db
            \<lparr>token = ''tok'', new_password = pystr_of ''Strong1!''\<rparr>))"
proof -
  let ?r = "reset_password model_env 2000 example_db
              \<lparr>token = ''tok'', new_password = pystr_of ''Strong1!''\<rparr>"
  have a: "length (filter (\<lambda>v. u_password_reset_token v = Some ''tok'') (users example_db)) \<le> 1"
    by (simp add: example_db_def example_user_def)
  have b: "distinct (map u_id (users example_db))"
    by (simp add: example_db_def example_user_def)
  have c: "fst ?r = Inr ''Password reset successfully''"
    by (simp add: eval_defs)
  then have d: "?r = (Inr ''Password reset successfully'', snd ?r)"
    by (simp add: prod_eq_iff)
  show ?thesis
    using a b c reset_token_single_use [OF a b d, of 3000 "pystr_of ''Another2?''"] by simp
qed

subsection \<open>Login and password verification\<close>







subsection \<open>Token types\<close>


lemma jose_decode_encode:
  "jose_contract E \<Longrightarrow>
   jwt_decode E (jwt_encode E c key alg) key [alg] now =
     (if claims_expired c now then Inl (JWTError ''Signature has expired.'')
      else Inr (wire_claims c))"
  by (simp add: jose_contract_def)

text \<open>
  C5: for every subject \<open>s\<close>, with a JWT library that returns what it encoded until the
  expiry, verifying a fresh access token that has not expired as \<open>access\<close> returns
  \<open>str(s)\<close>; verifying it as \<open>refresh\<close> returns no subject, at any time; and a
  refresh token is never accepted as an access token, nor an access token as a refresh
  token: both are the error 401.
\<close>

theorem token_type_enforced:
  assumes "jose_contract E"
  shows "(t div 1000000 \<le> access_expire S now expires_delta div 1000000 \<longrightarrow>
            verify_token E S t (create_access_token E S now s expires_delta) ''access''
              = Inr (Some (VStr (str_int s))))
       \<and> verify_token E S t (create_access_token E S now s expires_delta) ''refresh'' = Inr None
       \<and> verify_token E S t (create_refresh_token E S now s) ''access'' = Inr None
       \<and> verify_refresh_token E S t (create_access_token E S now s expires_delta)
           = Inl (HTTPException HTTP_401_UNAUTHORIZED ''Could not validate refresh token''
                    [(''WWW-Authenticate'', ''Bearer'')])
       \<and> verify_access_token E S t (create_refresh_token E S now s)
           = Inl (HTTPException HTTP_401_UNAUTHORIZED ''Could not validate credentials''
                    [(''WWW-Authenticate'', ''Bearer'')])"
  by (simp add: verify_token_def verify_refresh_token_def verify_access_token_def
        create_access_token_def create_refresh_token_def Let_def
        jose_decode_encode[OF assms] claims_expired_def wire_claims_def)

lemma model_env_jose_contract: "jose_contract model_env"
  by (simp add: jose_contract_def model_env_def claims_expired_def)

theorem token_type_enforced_witness:
  "jose_contract model_env
   \<and> (60000000::int) div 1000000 \<le> access_expire default_settings 0 None div 1000000
   \<and> verify_token model_env default_settings 60000000
        (create_access_token model_env default_settings 0 7 None) ''access''
      = Inr (Some (VStr ''7''))
   \<and> verify_token model_env default_settings 60000000
        (create_access_token model_env default_settings 0 7 None) ''refresh'' = Inr None"
proof -
  have e: "(60000000::int) div 1000000 \<le> access_expire default_settings 0 None div 1000000"
    by (simp add: access_expire_def default_settings_def timedelta_minutes_def)
  have s: "str_int 7 = ''7''"
    by (simp add: str_int_def str_nat.simps)
  show ?thesis
    using e s model_env_jose_contract
      token_type_enforced [OF model_env_jose_contract, of 60000000 default_settings 0 None 7]
    by simp
qed

subsection \<open>Ownership\<close>


lemma no_owned_account:
  assumes "distinct (map a_id (accounts db))" "a \<in> set (accounts db)"
    "a_user_id a \<noteq> uid"
  shows "find (\<lambda>b. a_id b = a_id a \<and> a_user_id b = uid) (accounts db) = None"
proof -
  have "b = a" if "b \<in> set (accounts db)" "a_id b = a_id a" for b
    using that assms(1,2) by (meson distinct_map inj_onD)
  then show ?thesis using assms(3) by (auto simp: find_None_iff)
qed

lemma owned_account:
  "distinct (map a_id xs) \<Longrightarrow> a \<in> set xs \<Longrightarrow>
   find (\<lambda>b. a_id b = a_id a \<and> a_user_id b = a_user_id a) xs = Some a"
  by (induction xs) (auto simp: rev_image_eqI)





text \<open>
  C2, as stated, fails: a superuser cannot read, update or delete the account of another
  user through the account endpoints. For account 42 of user 7 and the superuser 9 each
  of the three is 404 \<open>Account not found\<close>, and the database is unchanged.
\<close>

theorem superuser_not_admitted_counterexample:
  "u_is_superuser (example_user 9 ''b@x.com'' True)
   \<and> example_account 42 7 \<in> set (accounts example_db)
   \<and> get_account example_db 42 (example_user 9 ''b@x.com'' True)
       = Inl (HTTPException HTTP_404_NOT_FOUND ''Account not found'' [])
   \<and> update_account 5000 example_db 42
        \<lparr> upd_name = Provided (Some ''Mine''), upd_account_type = Unset, upd_bank_name = Unset,
          upd_account_number = Unset, upd_description = Unset, upd_is_active = Unset \<rparr>
        (example_user 9 ''b@x.com'' True)
       = (Inl (HTTPException HTTP_404_NOT_FOUND ''Account not found'' []), example_db)
   \<and> delete_account 5000 example_db 42 False (example_user 9 ''b@x.com'' True)
       = (Inl (HTTPException HTTP_404_NOT_FOUND ''Account not found'' []), example_db)"
  by (simp add: get_account_def update_account_def delete_account_def
        AccountService_get_account_def AccountService_update_account_def
        AccountService_delete_account_def account_not_found_def
        example_db_def example_account_def example_user_def)

text \<open>
  C2, amended: for an account of the database, \<open>check_account_access\<close> admits the
  current user exactly when the user owns the account or is a superuser; the account
  endpoints decide by ownership alone: reading and deleting succeed exactly when the
  current user is the owner, an update succeeds only for the owner, and the owner reads
  the account itself. \<open>is_superuser\<close> plays no part in them.
\<close>

theorem ownership_decision:
  assumes "distinct (map a_id (accounts db))"
      and "a \<in> set (accounts db)"
  shows "((\<exists>u. check_account_access db (a_id a) current_user = Inr u)
            \<longleftrightarrow> u_id current_user = a_user_id a \<or> u_is_superuser current_user)
       \<and> ((\<exists>r. get_account db (a_id a) current_user = Inr r)
            \<longleftrightarrow> u_id current_user = a_user_id a)
       \<and> ((\<exists>r d. update_account now db (a_id a) account_data current_user = (Inr r, d))
            \<longrightarrow> u_id current_user = a_user_id a)
       \<and> ((\<exists>r d. delete_account now db (a_id a) hard_delete current_user = (Inr r, d))
            \<longleftrightarrow> u_id current_user = a_user_id a)
       \<and> (u_id current_user = a_user_id a \<longrightarrow> get_account db (a_id a) current_user = Inr a)"
proof (cases "u_id current_user = a_user_id a")
  case True
  note f = owned_account[OF assms]
  show ?thesis using True
    by (auto simp: get_account_def update_account_def delete_account_def
          check_account_access_def AccountService_get_account_def
          AccountService_delete_account_def AccountService_hard_delete_account_def f)
next
  case False
  then have ne: "a_user_id a \<noteq> u_id current_user" by simp
  have f: "find (\<lambda>b. a_id b = a_id a \<and> a_user_id b = u_id current_user) (accounts db) = None"
    using no_owned_account[OF assms ne] .
  show ?thesis using False
    by (simp add: get_account_def update_account_def delete_account_def
          check_account_access_def AccountService_get_account_def
          AccountService_update_account_def
          AccountService_delete_account_def AccountService_hard_delete_account_def f)
qed


theorem ownership_decision_witness:
  "distinct (map a_id (accounts example_db))
   \<and> example_account 42 7 \<in> set (accounts example_db)
   \<and> u_id (example_user 7 ''a@x.com'' False) = a_user_id (example_account 42 7)
   \<and> get_account example_db 42 (example_user 7 ''a@x.com'' False) = Inr (example_account 42 7)
   \<and> check_account_access example_db 42 (example_user 9 ''b@x.com'' True)
       = Inr (example_user 9 ''b@x.com'' True)"
proof -
  have a: "distinct (map a_id (accounts example_db))" by (simp add: example_db_def)
  have b: "example_account 42 7 \<in> set (accounts example_db)" by (simp add: example_db_def)
  have c: "u_id (example_user 7 ''a@x.com'' False) = a_user_id (example_account 42 7)"
    by (simp add: example_account_def example_user_def)
  have i: "a_id (example_account 42 7) = 42" by (simp add: example_account_def)
  have s: "check_account_access example_db 42 (example_user 9 ''b@x.com'' True)
       = Inr (example_user 9 ''b@x.com'' True)"
    by (simp add: check_account_access_def example_user_def)
  show ?thesis
    using a b c i s ownership_decision [OF a b, of "example_user 7 ''a@x.com'' False"]
    by simp
qed

subsection \<open>Rate limiter\<close>



lemma recorded_upd [simp]: "recorded (reqs(i \<mapsto> xs)) i = xs"
  by (simp add: recorded_def)

lemma is_allowed_calls_Cons:
  "is_allowed reqs t i m w = (ok, r1) \<Longrightarrow>
   is_allowed_calls reqs i m w (t # ts) =
     (ok # fst (is_allowed_calls r1 i m w ts), snd (is_allowed_calls r1 i m w ts))"
  by (simp add: Let_def split: prod.splits)

lemma is_allowed_calls_length:
  "length (fst (is_allowed_calls reqs i m w nows)) = length nows"
proof (induction nows arbitrary: reqs)
  case Nil
  then show ?case by simp
next
  case (Cons t ts)
  obtain ok r1 where s: "is_allowed reqs t i m w = (ok, r1)" by fastforce
  show ?case using Cons.IH[of r1] by (subst is_allowed_calls_Cons[OF s]) simp
qed











end
